theory Spec2Isabelle
  imports Main "HOL-Library.Word"
begin

section \<open>The sleeper test fixture (security\_ptraceRestrictions/src/sleeper.c)\<close>

text \<open>
  The program is one function, \<open>main\<close>. It reads its argument vector, calls a handful
  of C library functions and returns an exit status. The model is a function from the
  argument vector and the answers of the environment to the sequence of library calls
  the program makes (in program order) and the way the process ends.
\<close>

subsection \<open>C types and constants\<close>

text \<open>
  \<open>int\<close> and \<open>unsigned int\<close> are 32 bits wide, \<open>long\<close> is 64 bits wide (LP64). A
  value of type \<open>int\<close> is read with \<open>sint\<close>, a value of type \<open>unsigned int\<close> with
  \<open>uint\<close>.
\<close>

type_synonym c_int = "32 word"
type_synonym c_uint = "32 word"

definition LONG_MIN :: int where
  "LONG_MIN = - (2 ^ 63)"

definition LONG_MAX :: int where
  "LONG_MAX = 2 ^ 63 - 1"

text \<open>\<open>#define PR_SET_PTRACER 0x59616d61\<close>; the kernel header gives the same number.\<close>

definition PR_SET_PTRACER :: c_int where
  "PR_SET_PTRACER = 0x59616d61"

definition SIGINT :: c_int where
  "SIGINT = 2"

definition SIGTERM :: c_int where
  "SIGTERM = 15"

text \<open>
  The conversion of an \<open>int\<close> argument to a parameter of type \<open>unsigned int\<close>: the
  value modulo \<open>2 ^ 32\<close>.
\<close>

definition to_unsigned :: "c_int \<Rightarrow> c_uint" where
  "to_unsigned x = word_of_int (sint x)"

subsection \<open>The argument vector\<close>

text \<open>
  \<open>argv\<close> is the list of the argument strings, \<open>argc\<close> its length. The array the
  program receives holds one more entry, the null pointer \<open>argv[argc]\<close>; \<open>argv_at\<close>
  reads an entry as the program does, \<open>None\<close> being the null pointer.
\<close>

definition argv_at :: "string list \<Rightarrow> nat \<Rightarrow> string option" where
  "argv_at argv i = (if i < length argv then Some (argv ! i) else None)"

subsection \<open>\<open>atoi\<close>\<close>

text \<open>
  The C library's \<open>atoi(s)\<close> is \<open>(int) strtol(s, NULL, 10)\<close>: white space is skipped,
  an optional sign is read, then the longest run of decimal digits; no digits give 0; a
  value outside the range of \<open>long\<close> is replaced by the nearest bound; the conversion
  to \<open>int\<close> keeps the low 32 bits.
\<close>

definition isspace :: "char \<Rightarrow> bool" where
  "isspace c = (c \<in> set [CHR '' '', CHR 0x09, CHR 0x0A, CHR 0x0B, CHR 0x0C, CHR 0x0D])"

definition isdigit :: "char \<Rightarrow> bool" where
  "isdigit c = (48 \<le> (of_char c :: nat) \<and> (of_char c :: nat) \<le> 57)"

fun digits_value :: "int \<Rightarrow> string \<Rightarrow> int" where
  "digits_value acc [] = acc"
| "digits_value acc (c # cs) =
     (if isdigit c then digits_value (10 * acc + (of_char c - 48)) cs else acc)"

definition clamp_long :: "int \<Rightarrow> int" where
  "clamp_long v = max LONG_MIN (min LONG_MAX v)"

definition strtol :: "string \<Rightarrow> int" where
  "strtol s =
     (case dropWhile isspace s of
        [] \<Rightarrow> 0
      | c # cs \<Rightarrow>
          if c = CHR ''-'' then clamp_long (- digits_value 0 cs)
          else if c = CHR ''+'' then clamp_long (digits_value 0 cs)
          else clamp_long (digits_value 0 (c # cs)))"

definition atoi :: "string \<Rightarrow> c_int" where
  "atoi s = word_of_int (strtol s)"

text \<open>Text in which \<open>strtol\<close> finds no digit to convert.\<close>

definition no_digits :: "string \<Rightarrow> bool" where
  "no_digits s =
     (case dropWhile isspace s of
        [] \<Rightarrow> True
      | c # cs \<Rightarrow>
          if c = CHR ''-'' \<or> c = CHR ''+'' then (case cs of [] \<Rightarrow> True | d # ds \<Rightarrow> \<not> isdigit d)
          else \<not> isdigit c)"

subsection \<open>Library calls and the environment\<close>

datatype stream = Stdout | Stderr

text \<open>
  One event per library call that acts on the world, with the arguments the program
  passes. A \<open>%s\<close> argument of \<open>fprintf\<close> is a string or the null pointer.
\<close>

datatype event =
    Fprintf stream string "string option list"
  | Getpid
  | Kill c_int c_int
  | Prctl c_int c_int c_int c_int c_int
  | Sleep c_uint

text \<open>
  A process ends by returning from \<open>main\<close> (its exit status is the value returned) or
  by a signal whose action is to terminate it.
\<close>

datatype outcome = Exited c_int | Signaled c_int

text \<open>
  What the environment answers. \<open>sigint_fatal\<close> tells whether a SIGINT that the
  process sends to itself terminates it: it does with the default disposition of the
  signal; it does not when the signal is ignored or blocked, or when a debugger that
  traces the process intercepts the signal and does not pass it on. The other fields
  are the values the calls return.
\<close>

record env =
  self_pid :: c_int
  sigint_fatal :: bool
  fprintf_result :: c_int
  kill_result :: c_int
  prctl_result :: c_int
  sleep_result :: c_uint

text \<open>
  What reaches the process from outside while it sleeps. The program installs no signal
  handler, so no signal makes \<open>sleep\<close> return early: a signal either leaves the sleep
  running (\<open>Harmless\<close>: the signal is ignored or blocked, or it stops the process and
  the process is continued later, as when a tracer attaches) or its action is to
  terminate the process (\<open>Terminating\<close>).
\<close>

datatype arrival = No_signal | Harmless c_int | Terminating c_int

text \<open>
  Each call takes the trace so far and returns its result with the extended trace.
  \<open>kill\<close> returns nothing when the signal terminates the caller. \<open>sleep\<close> returns
  the number of seconds left (\<open>Inr\<close>), or does not return because a signal terminates
  the process during the sleep (\<open>Inl\<close>, with the signal).
\<close>

definition fprintf :: "env \<Rightarrow> stream \<Rightarrow> string \<Rightarrow> string option list \<Rightarrow> event list \<Rightarrow> c_int \<times> event list" where
  "fprintf e st fmt args tr = (fprintf_result e, tr @ [Fprintf st fmt args])"

definition getpid :: "env \<Rightarrow> event list \<Rightarrow> c_int \<times> event list" where
  "getpid e tr = (self_pid e, tr @ [Getpid])"

definition kill :: "env \<Rightarrow> c_int \<Rightarrow> c_int \<Rightarrow> event list \<Rightarrow> c_int option \<times> event list" where
  "kill e pid sig tr =
     (if pid = self_pid e \<and> sig = SIGINT \<and> sigint_fatal e then None else Some (kill_result e),
      tr @ [Kill pid sig])"

definition prctl :: "env \<Rightarrow> c_int \<Rightarrow> c_int \<Rightarrow> c_int \<Rightarrow> c_int \<Rightarrow> c_int \<Rightarrow> event list \<Rightarrow> c_int \<times> event list" where
  "prctl e opt a2 a3 a4 a5 tr = (prctl_result e, tr @ [Prctl opt a2 a3 a4 a5])"

definition sleep :: "env \<Rightarrow> arrival \<Rightarrow> c_uint \<Rightarrow> event list \<Rightarrow> (c_int + c_uint) \<times> event list" where
  "sleep e a secs tr =
     (case a of
        Terminating s \<Rightarrow> Inl s
      | Harmless s \<Rightarrow> Inr (sleep_result e)
      | No_signal \<Rightarrow> Inr (sleep_result e),
      tr @ [Sleep secs])"

subsection \<open>\<open>main\<close>\<close>

definition usage_format :: string where
  "usage_format = ''Usage: %s TRACER_PID SLEEP_SECONDS'' @ [CHR 0x0A]"

text \<open>
  The function \<open>main\<close> of the source, run with the signal arrival \<open>a\<close> during its
  sleep.
\<close>

definition main_under :: "arrival \<Rightarrow> env \<Rightarrow> string list \<Rightarrow> event list \<times> outcome" where
  "main_under a e argv =
     (if length argv < 3 then
        (let (n, t1) = fprintf e Stderr usage_format [argv_at argv 0] [];
             (self, t2) = getpid e t1;
             (r, t3) = kill e self SIGINT t2
         in case r of None \<Rightarrow> (t3, Signaled SIGINT) | Some k \<Rightarrow> (t3, Exited 1))
      else
        (let pid = atoi (argv ! 1);
             t1 = (if pid \<noteq> - 1 then snd (prctl e PR_SET_PTRACER pid 0 0 0 []) else []);
             (r, t2) = sleep e a (to_unsigned (atoi (argv ! 2))) t1
         in case r of Inl s \<Rightarrow> (t2, Signaled s) | Inr left \<Rightarrow> (t2, Exited 0)))"

text \<open>The run in which no signal from outside reaches the process.\<close>

definition main :: "env \<Rightarrow> string list \<Rightarrow> event list \<times> outcome" where
  "main e argv = main_under No_signal e argv"

subsection \<open>Observations on a trace\<close>

text \<open>
  The text a \<open>fprintf\<close> call writes, for the conversion the program uses (\<open>%s\<close>);
  \<open>None\<close> where the call has no defined result (a null or missing argument, another
  conversion).
\<close>

fun format_s :: "string \<Rightarrow> string option list \<Rightarrow> string option" where
  "format_s [] args = Some []"
| "format_s (c # cs) args =
     (if c = CHR ''%'' then
        (case cs of
           [] \<Rightarrow> None
         | d # ds \<Rightarrow>
             if d = CHR ''s'' then
               (case args of
                  Some a # rest \<Rightarrow> map_option (\<lambda>t. a @ t) (format_s ds rest)
                | _ \<Rightarrow> None)
             else None)
      else map_option (\<lambda>t. c # t) (format_s cs args))"

fun output_text :: "stream \<Rightarrow> event list \<Rightarrow> string option" where
  "output_text st [] = Some []"
| "output_text st (Fprintf st' fmt args # evs) =
     (if st' = st then
        (case format_s fmt args of
           None \<Rightarrow> None
         | Some a \<Rightarrow> map_option (\<lambda>t. a @ t) (output_text st evs))
      else output_text st evs)"
| "output_text st (ev # evs) = output_text st evs"

fun is_prctl :: "event \<Rightarrow> bool" where
  "is_prctl (Prctl opt a2 a3 a4 a5) = True"
| "is_prctl ev = False"

fun is_fprintf :: "event \<Rightarrow> bool" where
  "is_fprintf (Fprintf st fmt args) = True"
| "is_fprintf ev = False"

fun is_kill :: "event \<Rightarrow> bool" where
  "is_kill (Kill pid sig) = True"
| "is_kill ev = False"

subsection \<open>Two environments\<close>

text \<open>
  \<open>env_shell\<close>: the process is started from a shell and SIGINT has its default
  disposition. \<open>env_debugger\<close>: the process runs under a debugger that stops on SIGINT
  and does not pass the signal on.
\<close>

definition env_shell :: env where
  "env_shell =
     \<lparr>self_pid = 4242, sigint_fatal = True, fprintf_result = 40, kill_result = 0,
      prctl_result = 0, sleep_result = 0\<rparr>"

definition env_debugger :: env where
  "env_debugger =
     \<lparr>self_pid = 4242, sigint_fatal = False, fprintf_result = 40, kill_result = 0,
      prctl_result = - 1, sleep_result = 0\<rparr>"

section \<open>Properties\<close>

subsection \<open>The two paths of \<open>main\<close>\<close>

lemma main_under_usage:
  "length argv < 3 \<Longrightarrow>
   main_under a e argv =
     ([Fprintf Stderr usage_format [argv_at argv 0], Getpid, Kill (self_pid e) SIGINT],
      if sigint_fatal e then Signaled SIGINT else Exited 1)"
  by (simp add: main_under_def fprintf_def getpid_def kill_def)

lemma main_under_run:
  "3 \<le> length argv \<Longrightarrow>
   main_under a e argv =
     ((if atoi (argv ! 1) \<noteq> - 1 then [Prctl PR_SET_PTRACER (atoi (argv ! 1)) 0 0 0] else [])
        @ [Sleep (to_unsigned (atoi (argv ! 2)))],
      case a of Terminating s \<Rightarrow> Signaled s | Harmless s \<Rightarrow> Exited 0 | No_signal \<Rightarrow> Exited 0)"
  by (cases a) (simp_all add: main_under_def prctl_def sleep_def Let_def)

lemma main_usage:
  "length argv < 3 \<Longrightarrow>
   main e argv =
     ([Fprintf Stderr usage_format [argv_at argv 0], Getpid, Kill (self_pid e) SIGINT],
      if sigint_fatal e then Signaled SIGINT else Exited 1)"
  by (simp add: main_def main_under_usage)

lemma main_run:
  "3 \<le> length argv \<Longrightarrow>
   main e argv =
     ((if atoi (argv ! 1) \<noteq> - 1 then [Prctl PR_SET_PTRACER (atoi (argv ! 1)) 0 0 0] else [])
        @ [Sleep (to_unsigned (atoi (argv ! 2)))],
      Exited 0)"
  by (simp add: main_def main_under_run)

lemma format_s_usage:
  "format_s usage_format [Some name] =
     Some (''Usage: '' @ name @ '' TRACER_PID SLEEP_SECONDS'' @ [CHR 0x0A])"
  by (simp add: usage_format_def)

subsection \<open>Facts about \<open>atoi\<close> and the conversion to \<open>unsigned int\<close>\<close>

lemmas atoi_eval =
  atoi_def strtol_def isspace_def isdigit_def clamp_long_def LONG_MIN_def LONG_MAX_def

lemma clamp_long_0: "clamp_long 0 = 0"
  by (simp add: clamp_long_def LONG_MIN_def LONG_MAX_def)

lemma no_digits_strtol: "no_digits s \<Longrightarrow> strtol s = 0"
proof (cases "dropWhile isspace s")
  case Nil
  show ?thesis unfolding strtol_def Nil by simp
next
  case (Cons c cs)
  assume "no_digits s"
  then have nd: "if c = CHR ''-'' \<or> c = CHR ''+''
      then (case cs of [] \<Rightarrow> True | d # ds \<Rightarrow> \<not> isdigit d) else \<not> isdigit c"
    unfolding no_digits_def Cons by simp
  show ?thesis
  proof (cases "c = CHR ''-'' \<or> c = CHR ''+''")
    case True
    with nd have "digits_value 0 cs = 0" by (cases cs) auto
    with True show ?thesis unfolding strtol_def Cons by (auto simp: clamp_long_0)
  next
    case False
    with nd have "\<not> isdigit c" by simp
    with False show ?thesis unfolding strtol_def Cons by (simp add: clamp_long_0)
  qed
qed

lemma no_digits_atoi: "no_digits s \<Longrightarrow> atoi s = 0"
  by (simp add: atoi_def no_digits_strtol)

lemma to_unsigned_uint: "uint (to_unsigned x) = sint x mod 2 ^ 32"
  unfolding to_unsigned_def by (simp only: uint_word_of_int) simp

lemma to_unsigned_nonneg: "0 \<le> sint x \<Longrightarrow> uint (to_unsigned x) = sint x"
  using sint_lt [of x] by (simp add: to_unsigned_uint)

lemma to_unsigned_neg: "sint x < 0 \<Longrightarrow> uint (to_unsigned x) = 2 ^ 32 + sint x"
proof -
  assume neg: "sint x < 0"
  have lo: "- (2 ^ 31) \<le> sint x" using sint_ge [of x] by simp
  have "sint x mod 2 ^ 32 = (sint x + 2 ^ 32) mod 2 ^ 32" by simp
  also have "\<dots> = sint x + 2 ^ 32" using neg lo by (intro mod_pos_pos_trivial) simp_all
  finally show ?thesis by (simp add: to_unsigned_uint)
qed

subsection \<open>The usage-error path\<close>

text \<open>
  C1, as stated: with \<open>argc < 3\<close> the program writes the usage message, sends SIGINT to
  itself and terminates with exit status 1. This fails where the signal has its default
  disposition: started from a shell with the program name alone, the process is
  terminated by the SIGINT it sends to itself, and \<open>return 1\<close> is never reached.
\<close>

theorem usage_exit_status_counterexample:
  "length [''sleeper''] < 3 \<and>
   snd (main \<lparr>self_pid = 4242, sigint_fatal = True, fprintf_result = 44, kill_result = 0,
               prctl_result = 0, sleep_result = 0\<rparr> [''sleeper'']) \<noteq> Exited 1"
  by (simp add: main_def main_under_def fprintf_def getpid_def kill_def)

text \<open>
  C1, amended: with \<open>argc < 3\<close> the program calls \<open>fprintf\<close> on the error stream with
  the usage format and \<open>argv[0]\<close> (with a program name present, the text written is
  \<open>Usage: <name> TRACER_PID SLEEP_SECONDS\<close> and a newline), then sends SIGINT to its
  own process; it terminates with exit status 1 unless the signal terminates it first.
\<close>

theorem usage_error_path:
  assumes "length argv < 3"
  shows "fst (main e argv) =
           [Fprintf Stderr usage_format [argv_at argv 0], Getpid, Kill (self_pid e) SIGINT]
       \<and> (argv \<noteq> [] \<longrightarrow>
            output_text Stderr (fst (main e argv)) =
              Some (''Usage: '' @ hd argv @ '' TRACER_PID SLEEP_SECONDS'' @ [CHR 0x0A]))
       \<and> snd (main e argv) = (if sigint_fatal e then Signaled SIGINT else Exited 1)"
proof -
  have tr: "fst (main e argv) =
      [Fprintf Stderr usage_format [argv_at argv 0], Getpid, Kill (self_pid e) SIGINT]"
    using assms by (simp add: main_usage)
  have out: "snd (main e argv) = (if sigint_fatal e then Signaled SIGINT else Exited 1)"
    using assms by (simp add: main_usage)
  have written: "output_text Stderr (fst (main e argv)) =
      Some (''Usage: '' @ hd argv @ '' TRACER_PID SLEEP_SECONDS'' @ [CHR 0x0A])"
    if "argv \<noteq> []"
  proof -
    from that have "argv_at argv 0 = Some (hd argv)"
      by (cases argv) (simp_all add: argv_at_def)
    then show ?thesis
      unfolding tr by (simp add: format_s_usage)
  qed
  from tr out written show ?thesis by blast
qed

text \<open>The amended C1 under a debugger that keeps the signal: exit status 1.\<close>

theorem usage_error_path_witness:
  "length [''sleeper'', ''7''] < 3
   \<and> fst (main env_debugger [''sleeper'', ''7'']) =
       [Fprintf Stderr usage_format [Some ''sleeper''], Getpid, Kill 4242 2]
   \<and> output_text Stderr (fst (main env_debugger [''sleeper'', ''7''])) =
       Some (''Usage: sleeper TRACER_PID SLEEP_SECONDS'' @ [CHR 0x0A])
   \<and> snd (main env_debugger [''sleeper'', ''7'']) = Exited 1"
  using usage_error_path [of "[''sleeper'', ''7'']" env_debugger]
  by (simp add: env_debugger_def argv_at_def SIGINT_def format_s_usage)

text \<open>
  C6: on the usage-error path the order of the effects is fixed. The events before the
  first \<open>kill\<close> are the \<open>fprintf\<close> of the usage message and the \<open>getpid\<close> that computes
  the target; the \<open>kill\<close> of the own process with SIGINT is the last event of the run,
  so the process ends after it; no \<open>kill\<close> precedes the \<open>fprintf\<close>.
\<close>

theorem usage_effects_ordered:
  assumes "length argv < 3"
  shows "takeWhile (\<lambda>ev. \<not> is_kill ev) (fst (main e argv)) =
           [Fprintf Stderr usage_format [argv_at argv 0], Getpid]
       \<and> dropWhile (\<lambda>ev. \<not> is_kill ev) (fst (main e argv)) = [Kill (self_pid e) SIGINT]
       \<and> hd (fst (main e argv)) = Fprintf Stderr usage_format [argv_at argv 0]
       \<and> last (fst (main e argv)) = Kill (self_pid e) SIGINT"
  using assms by (simp add: main_usage)

theorem usage_effects_ordered_witness:
  "length [''sleeper''] < 3
   \<and> takeWhile (\<lambda>ev. \<not> is_kill ev) (fst (main env_shell [''sleeper''])) =
       [Fprintf Stderr usage_format [Some ''sleeper''], Getpid]
   \<and> dropWhile (\<lambda>ev. \<not> is_kill ev) (fst (main env_shell [''sleeper''])) = [Kill 4242 2]
   \<and> hd (fst (main env_shell [''sleeper''])) = Fprintf Stderr usage_format [Some ''sleeper'']
   \<and> last (fst (main env_shell [''sleeper''])) = Kill 4242 2"
  using usage_effects_ordered [of "[''sleeper'']" env_shell]
  by (simp add: env_shell_def argv_at_def SIGINT_def)

subsection \<open>The normal path\<close>

text \<open>
  C2: with at least two positional arguments whose first does not parse to \<open>-1\<close>, the
  program calls \<open>prctl(PR_SET_PTRACER, pid, 0, 0, 0)\<close> exactly once, with the parsed
  first argument as \<open>pid\<close>; the value the call returns is ignored: whatever it is, the
  run (the calls made, the sleep, exit status 0) is the same.
\<close>

theorem tracer_declared_once:
  assumes "3 \<le> length argv" and "atoi (argv ! 1) \<noteq> - 1"
  shows "filter is_prctl (fst (main e argv)) = [Prctl PR_SET_PTRACER (atoi (argv ! 1)) 0 0 0]
       \<and> main (e\<lparr>prctl_result := r\<rparr>) argv = main e argv
       \<and> fst (main e argv) =
           [Prctl PR_SET_PTRACER (atoi (argv ! 1)) 0 0 0, Sleep (to_unsigned (atoi (argv ! 2)))]
       \<and> snd (main e argv) = Exited 0"
  using assms by (simp add: main_run)

theorem tracer_declared_once_witness:
  "3 \<le> length [''sleeper'', ''1234'', ''5''] \<and> atoi ''1234'' \<noteq> - 1
   \<and> filter is_prctl (fst (main env_debugger [''sleeper'', ''1234'', ''5''])) =
       [Prctl PR_SET_PTRACER 1234 0 0 0]
   \<and> main (env_debugger\<lparr>prctl_result := 0\<rparr>) [''sleeper'', ''1234'', ''5''] =
       main env_debugger [''sleeper'', ''1234'', ''5'']
   \<and> fst (main env_debugger [''sleeper'', ''1234'', ''5'']) =
       [Prctl PR_SET_PTRACER 1234 0 0 0, Sleep 5]
   \<and> snd (main env_debugger [''sleeper'', ''1234'', ''5'']) = Exited 0"
  using tracer_declared_once [of "[''sleeper'', ''1234'', ''5'']" env_debugger 0]
  by (simp add: atoi_eval to_unsigned_def)

text \<open>
  C3, as stated: with at least two positional arguments the program sleeps for the
  parsed second argument and then exits with status 0, whether the sleep completed or
  was interrupted by a signal. This fails for \<open>sleeper 1234 -1\<close> when SIGTERM arrives
  during the sleep: the duration asked of \<open>sleep\<close> is not the parsed value \<open>-1\<close>,
  and the signal terminates the process, which has no handler, so that \<open>return 0\<close> is
  never reached.
\<close>

theorem sleep_exit_status_counterexample:
  "3 \<le> length [''sleeper'', ''1234'', ''-1'']
   \<and> last (fst (main_under (Terminating SIGTERM)
        \<lparr>self_pid = 4242, sigint_fatal = True, fprintf_result = 40, kill_result = 0,
          prctl_result = 0, sleep_result = 0\<rparr> [''sleeper'', ''1234'', ''-1''])) =
       Sleep (to_unsigned (atoi ''-1''))
   \<and> uint (to_unsigned (atoi ''-1'')) \<noteq> sint (atoi ''-1'')
   \<and> snd (main_under (Terminating SIGTERM)
        \<lparr>self_pid = 4242, sigint_fatal = True, fprintf_result = 40, kill_result = 0,
          prctl_result = 0, sleep_result = 0\<rparr> [''sleeper'', ''1234'', ''-1'']) \<noteq> Exited 0"
proof -
  have parsed: "atoi ''-1'' = - 1"
    by (simp add: atoi_eval)
  have "uint (to_unsigned (- 1 :: c_int)) = 2 ^ 32 + sint (- 1 :: c_int)"
    by (rule to_unsigned_neg) simp
  then have asked: "uint (to_unsigned (atoi ''-1'')) \<noteq> sint (atoi ''-1'')"
    by (simp add: parsed)
  show ?thesis
    using asked by (simp add: main_under_run)
qed

text \<open>
  C3, amended: with at least two positional arguments, the last call of the program,
  after the optional \<open>prctl\<close>, is \<open>sleep\<close> with the parsed second argument converted
  to \<open>unsigned int\<close> (the parsed number of seconds when it is not negative, that number
  plus \<open>2 ^ 32\<close> when it is). When no signal arrives during the sleep, or one that
  leaves the sleep running, the program exits with status 0, whatever \<open>sleep\<close>
  returns; a signal that terminates the process during the sleep ends it by that signal.
\<close>

theorem sleep_then_exit:
  assumes "3 \<le> length argv"
  shows "fst (main_under a e argv) =
           filter is_prctl (fst (main_under a e argv)) @ [Sleep (to_unsigned (atoi (argv ! 2)))]
       \<and> uint (to_unsigned (atoi (argv ! 2))) =
           (if 0 \<le> sint (atoi (argv ! 2)) then sint (atoi (argv ! 2))
            else 2 ^ 32 + sint (atoi (argv ! 2)))
       \<and> snd (main_under a e argv) =
           (case a of
              Terminating s \<Rightarrow> Signaled s
            | Harmless s \<Rightarrow> Exited 0
            | No_signal \<Rightarrow> Exited 0)"
proof -
  have conv: "uint (to_unsigned (atoi (argv ! 2))) =
      (if 0 \<le> sint (atoi (argv ! 2)) then sint (atoi (argv ! 2))
       else 2 ^ 32 + sint (atoi (argv ! 2)))"
    by (simp add: to_unsigned_nonneg to_unsigned_neg)
  from assms have run: "fst (main_under a e argv) =
      filter is_prctl (fst (main_under a e argv)) @ [Sleep (to_unsigned (atoi (argv ! 2)))]"
    by (simp add: main_under_run)
  from assms have "snd (main_under a e argv) =
      (case a of Terminating s \<Rightarrow> Signaled s | Harmless s \<Rightarrow> Exited 0 | No_signal \<Rightarrow> Exited 0)"
    by (simp add: main_under_run)
  with conv run show ?thesis by blast
qed

text \<open>
  The amended C3 under a debugger: a SIGINT that arrives during the sleep is kept by
  the debugger, the sleep runs on and the exit status is 0.
\<close>

theorem sleep_then_exit_witness:
  "3 \<le> length [''sleeper'', ''1234'', ''30'']
   \<and> fst (main_under (Harmless SIGINT) env_debugger [''sleeper'', ''1234'', ''30'']) =
       [Prctl PR_SET_PTRACER 1234 0 0 0, Sleep 30]
   \<and> uint (to_unsigned (atoi ''30'')) = 30
   \<and> snd (main_under (Harmless SIGINT) env_debugger [''sleeper'', ''1234'', ''30'']) =
       Exited 0"
  using sleep_then_exit [of "[''sleeper'', ''1234'', ''30'']" "Harmless SIGINT" env_debugger]
  by (simp add: main_under_def prctl_def sleep_def atoi_eval to_unsigned_def)

text \<open>
  C4: with at least two positional arguments whose first parses to exactly \<open>-1\<close>, the
  program makes no \<open>prctl\<close> call at all: its only call is the \<open>sleep\<close>, so nothing it
  does touches the tracing permission of the process.
\<close>

theorem no_tracer_for_minus_one:
  assumes "3 \<le> length argv" and "atoi (argv ! 1) = - 1"
  shows "filter is_prctl (fst (main e argv)) = []
       \<and> fst (main e argv) = [Sleep (to_unsigned (atoi (argv ! 2)))]"
  using assms by (simp add: main_run)

theorem no_tracer_for_minus_one_witness:
  "3 \<le> length [''sleeper'', ''-1'', ''0''] \<and> atoi ''-1'' = - 1
   \<and> filter is_prctl (fst (main env_shell [''sleeper'', ''-1'', ''0''])) = []
   \<and> fst (main env_shell [''sleeper'', ''-1'', ''0'']) = [Sleep 0]"
  using no_tracer_for_minus_one [of "[''sleeper'', ''-1'', ''0'']" env_shell]
  by (simp add: atoi_eval to_unsigned_def)

text \<open>
  C5: with two or more positional arguments the exit status is 0, whatever the argument
  strings are; text without digits parses to 0 and opens no error path.
\<close>

theorem exit_zero_with_two_arguments:
  assumes "3 \<le> length argv"
  shows "snd (main e argv) = Exited 0
       \<and> (no_digits (argv ! 1) \<longrightarrow> atoi (argv ! 1) = 0)
       \<and> (no_digits (argv ! 2) \<longrightarrow> atoi (argv ! 2) = 0)"
  using assms by (simp add: main_run no_digits_atoi)

theorem exit_zero_with_two_arguments_witness:
  "3 \<le> length [''sleeper'', ''tracer'', '''']
   \<and> snd (main env_shell [''sleeper'', ''tracer'', '''']) = Exited 0
   \<and> no_digits ''tracer'' \<and> atoi ''tracer'' = 0
   \<and> no_digits '''' \<and> atoi '''' = 0"
  using exit_zero_with_two_arguments [of "[''sleeper'', ''tracer'', '''']" env_shell]
  by (simp add: no_digits_def isspace_def isdigit_def)

text \<open>
  C7: with two or more positional arguments the program writes nothing: no \<open>fprintf\<close>
  call is made, the text written to the output stream and to the error stream is empty,
  and the calls made are the optional \<open>prctl\<close> and the \<open>sleep\<close>, nothing else.
\<close>

theorem silent_on_success:
  assumes "3 \<le> length argv"
  shows "filter is_fprintf (fst (main e argv)) = []
       \<and> output_text Stdout (fst (main e argv)) = Some []
       \<and> output_text Stderr (fst (main e argv)) = Some []
       \<and> fst (main e argv) =
           (if atoi (argv ! 1) \<noteq> - 1
            then [Prctl PR_SET_PTRACER (atoi (argv ! 1)) 0 0 0] else [])
           @ [Sleep (to_unsigned (atoi (argv ! 2)))]"
  using assms by (simp add: main_run)

theorem silent_on_success_witness:
  "3 \<le> length [''sleeper'', ''77'', ''2'']
   \<and> filter is_fprintf (fst (main env_shell [''sleeper'', ''77'', ''2''])) = []
   \<and> output_text Stdout (fst (main env_shell [''sleeper'', ''77'', ''2''])) = Some []
   \<and> output_text Stderr (fst (main env_shell [''sleeper'', ''77'', ''2''])) = Some []
   \<and> fst (main env_shell [''sleeper'', ''77'', ''2'']) =
       [Prctl PR_SET_PTRACER 77 0 0 0, Sleep 2]"
  using silent_on_success [of "[''sleeper'', ''77'', ''2'']" env_shell]
  by (simp add: atoi_eval to_unsigned_def)

text \<open>
  C8: when the first positional argument is text without digits, \<open>atoi\<close> yields 0, and
  since 0 is not \<open>-1\<close> the tracer declaration is not skipped: \<open>prctl\<close> is called with
  process identifier 0.
\<close>

theorem non_numeric_tracer_is_zero:
  assumes "3 \<le> length argv" and "no_digits (argv ! 1)"
  shows "atoi (argv ! 1) = 0
       \<and> filter is_prctl (fst (main e argv)) = [Prctl PR_SET_PTRACER 0 0 0 0]
       \<and> fst (main e argv) =
           [Prctl PR_SET_PTRACER 0 0 0 0, Sleep (to_unsigned (atoi (argv ! 2)))]"
  using assms by (simp add: main_run no_digits_atoi)

theorem non_numeric_tracer_is_zero_witness:
  "3 \<le> length [''sleeper'', ''abc'', ''5''] \<and> no_digits ''abc''
   \<and> atoi ''abc'' = 0
   \<and> filter is_prctl (fst (main env_shell [''sleeper'', ''abc'', ''5''])) =
       [Prctl PR_SET_PTRACER 0 0 0 0]
   \<and> fst (main env_shell [''sleeper'', ''abc'', ''5'']) =
       [Prctl PR_SET_PTRACER 0 0 0 0, Sleep 5]"
  using non_numeric_tracer_is_zero [of "[''sleeper'', ''abc'', ''5'']" env_shell]
  by (simp add: no_digits_def atoi_eval to_unsigned_def)

text \<open>
  C9: when the second positional argument parses to a negative integer, the duration is
  neither rejected nor clamped to zero: \<open>sleep\<close> is called with the value converted to
  \<open>unsigned int\<close>, that is the value plus \<open>2 ^ 32\<close>, which is at least \<open>2 ^ 31\<close>
  seconds (\<open>-1\<close> becomes 4294967295).
\<close>

theorem negative_sleep_wraps:
  assumes "3 \<le> length argv" and "sint (atoi (argv ! 2)) < 0"
  shows "last (fst (main e argv)) = Sleep (to_unsigned (atoi (argv ! 2)))
       \<and> uint (to_unsigned (atoi (argv ! 2))) = 2 ^ 32 + sint (atoi (argv ! 2))
       \<and> 2 ^ 31 \<le> uint (to_unsigned (atoi (argv ! 2)))
       \<and> snd (main e argv) = Exited 0"
proof -
  have "- (2 ^ 31) \<le> sint (atoi (argv ! 2))"
    using sint_ge [of "atoi (argv ! 2)"] by simp
  with assms show ?thesis
    by (simp add: main_run to_unsigned_neg)
qed

theorem negative_sleep_wraps_witness:
  "3 \<le> length [''sleeper'', ''-1'', ''-1''] \<and> sint (atoi ''-1'') < 0
   \<and> last (fst (main env_shell [''sleeper'', ''-1'', ''-1''])) = Sleep 4294967295
   \<and> uint (to_unsigned (atoi ''-1'')) = 4294967295
   \<and> snd (main env_shell [''sleeper'', ''-1'', ''-1'']) = Exited 0"
  using negative_sleep_wraps [of "[''sleeper'', ''-1'', ''-1'']" env_shell]
  by (simp add: atoi_eval to_unsigned_def)

text \<open>
  C10: two invocations with at least two positional arguments each, which agree on the
  first two positional arguments, behave the same in every environment: the same calls
  with the same arguments and the same exit status, whatever the further arguments are.
\<close>

theorem extra_arguments_ignored:
  assumes "3 \<le> length argv" and "3 \<le> length argv'"
    and "argv ! 1 = argv' ! 1" and "argv ! 2 = argv' ! 2"
  shows "main e argv = main e argv'"
  using assms by (simp add: main_run)

theorem extra_arguments_ignored_witness:
  "3 \<le> length [''sleeper'', ''77'', ''2'']
   \<and> 3 \<le> length [''sleeper'', ''77'', ''2'', ''-1'', ''x'']
   \<and> main env_shell [''sleeper'', ''77'', ''2''] =
       main env_shell [''sleeper'', ''77'', ''2'', ''-1'', ''x'']"
  using extra_arguments_ignored
    [of "[''sleeper'', ''77'', ''2'']" "[''sleeper'', ''77'', ''2'', ''-1'', ''x'']" env_shell]
  by simp

end
